theory Spec2Isabelle
  imports Complex_Main "HOL-Library.AList" "HOL-Library.Multiset" "HOL-Library.Sublist"
begin

section \<open>Meal planner: data model\<close>

text \<open>
  The development embeds \<^verbatim>\<open>planner_jidelnicku_final.py\<close>. Python's \<^verbatim>\<open>int\<close> is
  \<^typ>\<open>int\<close>. A \<^verbatim>\<open>Set[str]\<close> is a \<^typ>\<open>string set\<close>. A dictionary whose iteration
  order or emptiness the code uses is an association list read with \<^const>\<open>map_of\<close>; a
  dictionary that is only looked up is a map. Every \<^verbatim>\<open>raise\<close> is a value of an error
  type.

  The \<^verbatim>\<open>float\<close> fields of \<^verbatim>\<open>FoodItem\<close> have the type parameter \<open>'f\<close>. The planner
  computes with them, and there a \<^verbatim>\<open>float\<close> is idealised as an exact rational
  (\<^typ>\<open>rat\<close>): rounding, infinities and NaN are outside that part of the model. The
  ingestion does no arithmetic on them, and there they are Python's floats with their
  infinities and NaN (the type \<open>pyfloat\<close> below).
\<close>

record 'f food_item =
  name :: string
  calories :: int
  protein :: 'f
  fat :: 'f
  carbs :: 'f
  meal_times :: "string set"
  tags :: "string set"

type_synonym FoodItem = "rat food_item"

text \<open>\<^verbatim>\<open>FoodItem.get_nutrient_value\<close>: \<^verbatim>\<open>nutrient_map.get(nutrient, 0.0)\<close>.\<close>

definition get_nutrient_value :: "FoodItem \<Rightarrow> string \<Rightarrow> rat" where
  "get_nutrient_value food nutrient =
     (case map_of [(''calories'', of_int (calories food)),
                   (''protein'', protein food),
                   (''fat'', fat food),
                   (''carbs'', carbs food)] nutrient of
        Some v \<Rightarrow> v
      | None \<Rightarrow> 0)"

record MealPlan =
  breakfast :: "FoodItem list"
  lunch :: "FoodItem list"
  dinner :: "FoodItem list"
  snacks :: "FoodItem list"

definition all_items :: "MealPlan \<Rightarrow> FoodItem list" where
  "all_items plan = breakfast plan @ lunch plan @ dinner plan @ snacks plan"

text \<open>\<^verbatim>\<open>MealPlan.totals\<close>: a dictionary with exactly the four nutrient keys.\<close>

definition totals :: "MealPlan \<Rightarrow> (string \<times> rat) list" where
  "totals plan =
     [(''calories'', of_int (sum_list (map calories (all_items plan)))),
      (''protein'', sum_list (map protein (all_items plan))),
      (''fat'', sum_list (map fat (all_items plan))),
      (''carbs'', sum_list (map carbs (all_items plan)))]"

text \<open>
  The exceptions of the program. \<open>KeyError\<close> carries the missing key. The
  \<^verbatim>\<open>ValueError\<close>s carry what their message interpolates: the item name and the slot;
  the slot, the count and the limit; the metric, the value and the bound.
  \<open>BuildError\<close> is the \<^verbatim>\<open>ValueError\<close> that \<^verbatim>\<open>build\<close> wraps around whatever it caught.
\<close>

datatype error =
    KeyError string
  | NotSuitable string string
  | TooFewItems string nat int
  | TooManyItems string nat int
  | BelowMinimum string rat rat
  | AboveMaximum string rat rat
  | BuildError error

section \<open>The builder\<close>

text \<open>
  \<^verbatim>\<open>MealPlanBuilder\<close>: the private attributes \<^verbatim>\<open>_breakfast\<close>, ... are the fields
  \<open>priv_breakfast\<close>, ... (an Isabelle name cannot start with an underscore).
  \<^verbatim>\<open>_slot_caps\<close> is a dictionary that \<^verbatim>\<open>build\<close> iterates in insertion order.
\<close>

type_synonym slot_caps = "(string \<times> (int \<times> int)) list"

record MealPlanBuilder =
  priv_breakfast :: "FoodItem list"
  priv_lunch :: "FoodItem list"
  priv_dinner :: "FoodItem list"
  priv_snacks :: "FoodItem list"
  priv_slot_caps :: slot_caps

definition new_builder :: MealPlanBuilder where
  "new_builder =
     \<lparr>priv_breakfast = [], priv_lunch = [], priv_dinner = [], priv_snacks = [],
      priv_slot_caps = [(''breakfast'', (1, 2)), (''lunch'', (1, 3)),
                        (''dinner'', (1, 3)), (''snack'', (0, 2))]\<rparr>"

text \<open>
  \<^verbatim>\<open>self._slot_caps[slot] = (min_items, max_items)\<close>: an existing key keeps its
  position, a new key goes to the end, which is what \<^const>\<open>AList.update\<close> does.
\<close>

definition set_slot_limits :: "MealPlanBuilder \<Rightarrow> string \<Rightarrow> int \<Rightarrow> int \<Rightarrow> MealPlanBuilder" where
  "set_slot_limits b slot min_items max_items =
     b\<lparr>priv_slot_caps := AList.update slot (min_items, max_items) (priv_slot_caps b)\<rparr>"

definition add_to_slot :: "MealPlanBuilder \<Rightarrow> string \<Rightarrow> FoodItem \<Rightarrow> error + MealPlanBuilder" where
  "add_to_slot b slot item =
     (if slot \<notin> meal_times item then Inl (NotSuitable (name item) slot)
      else if slot = ''breakfast'' then Inr (b\<lparr>priv_breakfast := priv_breakfast b @ [item]\<rparr>)
      else if slot = ''lunch'' then Inr (b\<lparr>priv_lunch := priv_lunch b @ [item]\<rparr>)
      else if slot = ''dinner'' then Inr (b\<lparr>priv_dinner := priv_dinner b @ [item]\<rparr>)
      else if slot = ''snack'' then Inr (b\<lparr>priv_snacks := priv_snacks b @ [item]\<rparr>)
      else Inr b)"

definition add_breakfast :: "MealPlanBuilder \<Rightarrow> FoodItem \<Rightarrow> error + MealPlanBuilder" where
  "add_breakfast b item = add_to_slot b ''breakfast'' item"

definition add_lunch :: "MealPlanBuilder \<Rightarrow> FoodItem \<Rightarrow> error + MealPlanBuilder" where
  "add_lunch b item = add_to_slot b ''lunch'' item"

definition add_dinner :: "MealPlanBuilder \<Rightarrow> FoodItem \<Rightarrow> error + MealPlanBuilder" where
  "add_dinner b item = add_to_slot b ''dinner'' item"

definition add_snack :: "MealPlanBuilder \<Rightarrow> FoodItem \<Rightarrow> error + MealPlanBuilder" where
  "add_snack b item = add_to_slot b ''snack'' item"

text \<open>\<^verbatim>\<open>_get_slot_items\<close>: an unknown slot has no items.\<close>

definition get_slot_items :: "MealPlanBuilder \<Rightarrow> string \<Rightarrow> FoodItem list" where
  "get_slot_items b slot =
     (if slot = ''breakfast'' then priv_breakfast b
      else if slot = ''lunch'' then priv_lunch b
      else if slot = ''dinner'' then priv_dinner b
      else if slot = ''snack'' then priv_snacks b
      else [])"

text \<open>
  \<^verbatim>\<open>build\<close>, first loop: the slot counts against \<^verbatim>\<open>_slot_caps.items()\<close>, in order;
  the first violation raises.
\<close>

fun check_slot_counts :: "MealPlanBuilder \<Rightarrow> slot_caps \<Rightarrow> error + unit" where
  "check_slot_counts b [] = Inr ()"
| "check_slot_counts b ((slot, (min_cap, max_cap)) # rest) =
     (let items = get_slot_items b slot in
      if int (length items) < min_cap then Inl (TooFewItems slot (length items) min_cap)
      else if int (length items) > max_cap then Inl (TooManyItems slot (length items) max_cap)
      else check_slot_counts b rest)"

type_synonym targets = "(string \<times> rat option) list"
type_synonym limits = "(string \<times> (rat option \<times> rat option)) list"

text \<open>
  \<^verbatim>\<open>build\<close>, second loop: \<^verbatim>\<open>totals.get(metric, 0.0)\<close> against each pair of
  \<^verbatim>\<open>limits.items()\<close>; \<^verbatim>\<open>None\<close> is no bound.
\<close>

fun check_total_limits :: "limits \<Rightarrow> (string \<times> rat) list \<Rightarrow> error + unit" where
  "check_total_limits [] tot = Inr ()"
| "check_total_limits ((metric, (min_val, max_val)) # rest) tot =
     (let val = (case map_of tot metric of Some v \<Rightarrow> v | None \<Rightarrow> 0) in
      case min_val of
        Some lo \<Rightarrow>
          if val < lo then Inl (BelowMinimum metric val lo)
          else (case max_val of
                  Some hi \<Rightarrow> if val > hi then Inl (AboveMaximum metric val hi)
                             else check_total_limits rest tot
                | None \<Rightarrow> check_total_limits rest tot)
      | None \<Rightarrow>
          (case max_val of
             Some hi \<Rightarrow> if val > hi then Inl (AboveMaximum metric val hi)
                        else check_total_limits rest tot
           | None \<Rightarrow> check_total_limits rest tot))"

definition plan_of :: "MealPlanBuilder \<Rightarrow> MealPlan" where
  "plan_of b = \<lparr>breakfast = priv_breakfast b, lunch = priv_lunch b,
                dinner = priv_dinner b, snacks = priv_snacks b\<rparr>"

text \<open>
  The body of the \<^verbatim>\<open>try\<close> in \<^verbatim>\<open>build\<close>. The arguments \<^verbatim>\<open>targets\<close> and \<^verbatim>\<open>limits\<close>
  are only tested for truth and iterated, so the default \<^verbatim>\<open>None\<close> is the empty
  dictionary here.
\<close>

definition build_body :: "MealPlanBuilder \<Rightarrow> targets \<Rightarrow> limits \<Rightarrow> error + MealPlan" where
  "build_body b targets limits =
     (case check_slot_counts b (priv_slot_caps b) of
        Inl e \<Rightarrow> Inl e
      | Inr _ \<Rightarrow>
          (let plan = plan_of b in
           if targets \<noteq> [] \<or> limits \<noteq> [] then
             (if limits \<noteq> [] then
                (case check_total_limits limits (totals plan) of
                   Inl e \<Rightarrow> Inl e
                 | Inr _ \<Rightarrow> Inr plan)
              else Inr plan)
           else Inr plan))"

text \<open>\<^verbatim>\<open>except Exception as e: raise ValueError(...)\<close>: every failure is wrapped.\<close>

definition build :: "MealPlanBuilder \<Rightarrow> targets \<Rightarrow> limits \<Rightarrow> error + MealPlan" where
  "build b targets limits =
     (case build_body b targets limits of
        Inl e \<Rightarrow> Inl (BuildError e)
      | Inr plan \<Rightarrow> Inr plan)"

section \<open>The optimizer\<close>

subsection \<open>Scoring and greedy selection\<close>

definition nutrients :: "string list" where
  "nutrients = [''calories'', ''protein'', ''fat'', ''carbs'']"

text \<open>
  One round of the inner loop of \<^verbatim>\<open>knapsack_optimize\<close> over \<^verbatim>\<open>nutrients\<close>: the score
  is updated only when the nutrient is a key of \<^verbatim>\<open>targets\<close> with a positive value.
  \<^verbatim>\<open>weights\<close> is only read with \<^verbatim>\<open>weights.get(nutrient, 1.0)\<close>.
\<close>

type_synonym slot_targets = "(string \<times> rat) list"

definition score_step ::
  "slot_targets \<Rightarrow> (string \<rightharpoonup> rat) \<Rightarrow> FoodItem \<Rightarrow> string \<Rightarrow> rat \<Rightarrow> rat" where
  "score_step targets weights food nutrient score =
     (case map_of targets nutrient of
        None \<Rightarrow> score
      | Some target_val \<Rightarrow>
          if target_val > 0 then
            (let nutrient_val = get_nutrient_value food nutrient;
                 weight = (case weights nutrient of Some w \<Rightarrow> w | None \<Rightarrow> 1);
                 ratio = nutrient_val / max target_val 1;
                 contribution =
                   (if ratio > 3 / 2 then - weight * (ratio - 1)
                    else weight * (1 - \<bar>1 - ratio\<bar>))
             in score + contribution)
          else score)"

text \<open>The score of one food: the loop from \<open>0\<close>, then \<^verbatim>\<open>score / len(nutrients)\<close>.\<close>

definition food_score :: "slot_targets \<Rightarrow> (string \<rightharpoonup> rat) \<Rightarrow> FoodItem \<Rightarrow> rat" where
  "food_score targets weights food =
     fold (score_step targets weights food) nutrients 0 / of_nat (length nutrients)"

text \<open>
  \<^verbatim>\<open>item_scores.sort(reverse=True, key=lambda x: x[0])\<close>: Python's sort is stable, and
  with \<^verbatim>\<open>reverse=True\<close> elements of equal key still keep their original order. That is
  the stable sort \<^const>\<open>sort_key\<close> on the negated score.
\<close>

definition rank_foods ::
  "slot_targets \<Rightarrow> (string \<rightharpoonup> rat) \<Rightarrow> FoodItem list \<Rightarrow> (rat \<times> FoodItem) list" where
  "rank_foods targets weights foods =
     sort_key (\<lambda>x. - fst x) (map (\<lambda>food. (food_score targets weights food, food)) foods)"

text \<open>\<^verbatim>\<open>current_totals = {nutrient: 0.0 for nutrient in nutrients}\<close>.\<close>

definition init_totals :: "string \<rightharpoonup> rat" where
  "init_totals = map_of (map (\<lambda>nutrient. (nutrient, 0)) nutrients)"

text \<open>
  \<^verbatim>\<open>temp_totals = current_totals.copy()\<close> and the loop
  \<^verbatim>\<open>temp_totals[nutrient] += food.get_nutrient_value(nutrient)\<close>. The dictionary has the
  keys of \<^verbatim>\<open>nutrients\<close> from its creation on, so the read never misses.
\<close>

definition add_food_totals :: "(string \<rightharpoonup> rat) \<Rightarrow> FoodItem \<Rightarrow> (string \<rightharpoonup> rat)" where
  "add_food_totals current_totals food =
     fold (\<lambda>nutrient temp_totals.
             temp_totals(nutrient \<mapsto>
               (case temp_totals nutrient of Some v \<Rightarrow> v | None \<Rightarrow> 0)
                 + get_nutrient_value food nutrient))
          nutrients current_totals"

text \<open>
  The check of the limits for one candidate. \<^verbatim>\<open>temp_totals[nutrient]\<close> raises
  \<^verbatim>\<open>KeyError\<close> for a limit on anything but the four nutrients. A value below the minimum
  takes \<^verbatim>\<open>continue\<close>, which skips the comparison with the maximum; a value above the
  maximum ends the loop with \<^verbatim>\<open>within_limits = False\<close>.
\<close>

fun within_limits :: "limits \<Rightarrow> (string \<rightharpoonup> rat) \<Rightarrow> error + bool" where
  "within_limits [] temp_totals = Inr True"
| "within_limits ((nutrient, (min_val, max_val)) # rest) temp_totals =
     (case temp_totals nutrient of
        None \<Rightarrow> Inl (KeyError nutrient)
      | Some val \<Rightarrow>
          if (case min_val of Some lo \<Rightarrow> val < lo | None \<Rightarrow> False)
          then within_limits rest temp_totals
          else if (case max_val of Some hi \<Rightarrow> val > hi | None \<Rightarrow> False)
          then Inr False
          else within_limits rest temp_totals)"

text \<open>
  The selection loop over the ranked pairs, with the state \<^verbatim>\<open>selected\<close> and
  \<^verbatim>\<open>current_totals\<close>; \<^verbatim>\<open>break\<close> once \<^verbatim>\<open>len(selected) >= max_items\<close>.
\<close>

fun select_loop ::
  "limits \<Rightarrow> int \<Rightarrow> (rat \<times> FoodItem) list \<Rightarrow> FoodItem list \<Rightarrow> (string \<rightharpoonup> rat)
   \<Rightarrow> error + FoodItem list" where
  "select_loop limits max_items [] selected current_totals = Inr selected"
| "select_loop limits max_items ((score, food) # rest) selected current_totals =
     (if int (length selected) \<ge> max_items then Inr selected
      else
        (let temp_totals = add_food_totals current_totals food in
         case within_limits limits temp_totals of
           Inl e \<Rightarrow> Inl e
         | Inr ok \<Rightarrow>
             if ok then select_loop limits max_items rest (selected @ [food]) temp_totals
             else select_loop limits max_items rest selected current_totals))"

definition knapsack_optimize ::
  "FoodItem list \<Rightarrow> slot_targets \<Rightarrow> limits \<Rightarrow> (string \<rightharpoonup> rat) \<Rightarrow> int
   \<Rightarrow> error + FoodItem list" where
  "knapsack_optimize foods targets limits weights max_items =
     (if targets = [] \<or> foods = [] then Inr []
      else select_loop limits max_items (rank_foods targets weights foods) [] init_totals)"

subsection \<open>Distribution to slots\<close>

text \<open>
  \<^verbatim>\<open>distribution\<close> is a dictionary from slot to list, with the keys of \<^verbatim>\<open>slot_caps\<close>;
  it is only looked up and updated, so it is a map. Both \<^verbatim>\<open>distribution[slot]\<close> and
  \<^verbatim>\<open>slot_caps[slot]\<close> raise \<^verbatim>\<open>KeyError\<close> for a slot that \<^verbatim>\<open>slot_caps\<close> lacks.
\<close>

type_synonym distribution = "string \<rightharpoonup> FoodItem list"

definition init_distribution :: "slot_caps \<Rightarrow> distribution" where
  "init_distribution slot_caps = map_of (map (\<lambda>slot. (slot, [])) (map fst slot_caps))"

text \<open>
  The first inner loop for one food, over the slots that are left: the result is the
  distribution and the flag \<^verbatim>\<open>assigned\<close>.
\<close>

fun assign_natural ::
  "slot_caps \<Rightarrow> FoodItem \<Rightarrow> string list \<Rightarrow> distribution \<Rightarrow> error + (distribution \<times> bool)" where
  "assign_natural slot_caps food [] distribution = Inr (distribution, False)"
| "assign_natural slot_caps food (slot # rest) distribution =
     (if slot \<in> meal_times food then
        (case distribution slot of
           None \<Rightarrow> Inl (KeyError slot)
         | Some items \<Rightarrow>
             (case map_of slot_caps slot of
                None \<Rightarrow> Inl (KeyError slot)
              | Some (min_count, max_count) \<Rightarrow>
                  if slot = ''breakfast'' \<and> ''meat'' \<in> tags food
                  then assign_natural slot_caps food rest distribution
                  else if int (length items) < max_count
                  then Inr (distribution(slot \<mapsto> items @ [food]), True)
                  else assign_natural slot_caps food rest distribution))
      else assign_natural slot_caps food rest distribution)"

text \<open>The second inner loop: the first slot with free capacity, whatever the food.\<close>

fun assign_anywhere ::
  "slot_caps \<Rightarrow> FoodItem \<Rightarrow> string list \<Rightarrow> distribution \<Rightarrow> error + distribution" where
  "assign_anywhere slot_caps food [] distribution = Inr distribution"
| "assign_anywhere slot_caps food (slot # rest) distribution =
     (case distribution slot of
        None \<Rightarrow> Inl (KeyError slot)
      | Some items \<Rightarrow>
          (case map_of slot_caps slot of
             None \<Rightarrow> Inl (KeyError slot)
           | Some (min_count, max_count) \<Rightarrow>
               if int (length items) < max_count
               then Inr (distribution(slot \<mapsto> items @ [food]))
               else assign_anywhere slot_caps food rest distribution))"

text \<open>The body of the outer loop for one food.\<close>

definition place_food :: "slot_caps \<Rightarrow> FoodItem \<Rightarrow> distribution \<Rightarrow> error + distribution" where
  "place_food slot_caps food distribution =
     (case assign_natural slot_caps food [''breakfast'', ''lunch'', ''dinner'', ''snack'']
             distribution of
        Inl e \<Rightarrow> Inl e
      | Inr (distribution', assigned) \<Rightarrow>
          if \<not> assigned
          then assign_anywhere slot_caps food [''breakfast'', ''lunch'', ''dinner'', ''snack'']
                 distribution'
          else Inr distribution')"

fun distribute_loop ::
  "slot_caps \<Rightarrow> FoodItem list \<Rightarrow> distribution \<Rightarrow> error + distribution" where
  "distribute_loop slot_caps [] distribution = Inr distribution"
| "distribute_loop slot_caps (food # rest) distribution =
     (case place_food slot_caps food distribution of
        Inl e \<Rightarrow> Inl e
      | Inr distribution' \<Rightarrow> distribute_loop slot_caps rest distribution')"

definition distribute_to_slots :: "FoodItem list \<Rightarrow> slot_caps \<Rightarrow> error + distribution" where
  "distribute_to_slots foods slot_caps =
     distribute_loop slot_caps foods (init_distribution slot_caps)"

section \<open>The orchestration\<close>

text \<open>
  \<^verbatim>\<open>filter_items(items, *predicates)\<close> keeps the items that satisfy all the predicates,
  in order.
\<close>

definition filter_items :: "FoodItem list \<Rightarrow> (FoodItem \<Rightarrow> bool) list \<Rightarrow> FoodItem list" where
  "filter_items items predicates = filter (\<lambda>item. list_all (\<lambda>predicate. predicate item) predicates) items"

definition by_meal_time :: "string \<Rightarrow> FoodItem \<Rightarrow> bool" where
  "by_meal_time meal_time = (\<lambda>item. meal_time \<in> meal_times item)"

text \<open>
  \<^verbatim>\<open>slot_foods\<close>: one entry for each key of \<^verbatim>\<open>slot_caps\<close>; reading it at another
  slot raises \<^verbatim>\<open>KeyError\<close>.
\<close>

definition slot_foods_of :: "FoodItem list \<Rightarrow> slot_caps \<Rightarrow> (string \<times> FoodItem list) list" where
  "slot_foods_of foods slot_caps =
     map (\<lambda>slot. (slot, filter_items foods [by_meal_time slot])) (map fst slot_caps)"

text \<open>\<^verbatim>\<open>{k: v for k, v in targets.items() if v is not None}\<close>.\<close>

definition daily_targets_of :: "targets \<Rightarrow> slot_targets" where
  "daily_targets_of targets =
     concat (map (\<lambda>(k, v). case v of Some x \<Rightarrow> [(k, x)] | None \<Rightarrow> []) targets)"

text \<open>
  The slice \<^verbatim>\<open>xs[:n]\<close>: for a negative \<open>n\<close> Python drops the last \<open>-n\<close> elements.
\<close>

definition slice_to :: "'a list \<Rightarrow> int \<Rightarrow> 'a list" where
  "slice_to xs n = (if 0 \<le> n then take (nat n) xs else take (length xs - nat (- n)) xs)"

text \<open>The shares of the daily targets, in the order of the dictionary literal.\<close>

definition slot_distribution :: "(string \<times> rat) list" where
  "slot_distribution =
     [(''breakfast'', 25 / 100), (''lunch'', 35 / 100), (''dinner'', 30 / 100), (''snack'', 10 / 100)]"

text \<open>The loop over \<^verbatim>\<open>slot_distribution.items()\<close>, with the state \<^verbatim>\<open>all_selected\<close>.\<close>

fun optimize_slots ::
  "(string \<times> FoodItem list) list \<Rightarrow> slot_targets \<Rightarrow> limits \<Rightarrow> (string \<rightharpoonup> rat) \<Rightarrow> slot_caps
   \<Rightarrow> (string \<times> rat) list \<Rightarrow> FoodItem list \<Rightarrow> error + FoodItem list" where
  "optimize_slots slot_foods daily_targets limits weights slot_caps [] all_selected =
     Inr all_selected"
| "optimize_slots slot_foods daily_targets limits weights slot_caps
     ((slot, percentage) # rest) all_selected =
     (case map_of slot_foods slot of
        None \<Rightarrow> Inl (KeyError slot)
      | Some slot_items \<Rightarrow>
          if slot_items = []
          then optimize_slots slot_foods daily_targets limits weights slot_caps rest all_selected
          else
            (let slot_targets =
                   map (\<lambda>(nutrient, target). (nutrient, target * percentage)) daily_targets
             in case map_of slot_caps slot of
                  None \<Rightarrow> Inl (KeyError slot)
                | Some (min_cap, max_cap) \<Rightarrow>
                    (case knapsack_optimize slot_items slot_targets limits weights max_cap of
                       Inl e \<Rightarrow> Inl e
                     | Inr selected \<Rightarrow>
                         optimize_slots slot_foods daily_targets limits weights slot_caps rest
                           (all_selected @ slice_to selected max_cap))))"

text \<open>The loop of the branch without targets.\<close>

fun take_slots ::
  "(string \<times> FoodItem list) list \<Rightarrow> slot_caps \<Rightarrow> string list \<Rightarrow> FoodItem list
   \<Rightarrow> error + FoodItem list" where
  "take_slots slot_foods slot_caps [] all_selected = Inr all_selected"
| "take_slots slot_foods slot_caps (slot # rest) all_selected =
     (case map_of slot_foods slot of
        None \<Rightarrow> Inl (KeyError slot)
      | Some slot_items \<Rightarrow>
          if slot_items \<noteq> [] then
            (case map_of slot_caps slot of
               None \<Rightarrow> Inl (KeyError slot)
             | Some (min_cap, max_cap) \<Rightarrow>
                 take_slots slot_foods slot_caps rest (all_selected @ slice_to slot_items max_cap))
          else take_slots slot_foods slot_caps rest all_selected)"

text \<open>The first stage of \<^verbatim>\<open>find_optimal_plan\<close>: everything up to \<^verbatim>\<open>all_selected\<close>.\<close>

definition pooled_selection ::
  "FoodItem list \<Rightarrow> targets \<Rightarrow> limits \<Rightarrow> (string \<rightharpoonup> rat) \<Rightarrow> slot_caps
   \<Rightarrow> error + FoodItem list" where
  "pooled_selection foods targets limits weights slot_caps =
     (let slot_foods = slot_foods_of foods slot_caps;
          daily_targets = daily_targets_of targets
      in if daily_targets \<noteq> []
         then optimize_slots slot_foods daily_targets limits weights slot_caps slot_distribution []
         else take_slots slot_foods slot_caps [''breakfast'', ''lunch'', ''dinner'', ''snack''] [])"

text \<open>
  \<^verbatim>\<open>for slot, (min_cap, max_cap) in slot_caps.items(): builder.set_slot_limits(...)\<close>.
\<close>

definition configure_builder :: "slot_caps \<Rightarrow> MealPlanBuilder \<Rightarrow> MealPlanBuilder" where
  "configure_builder slot_caps builder =
     fold (\<lambda>(slot, (min_cap, max_cap)) b. set_slot_limits b slot min_cap max_cap) slot_caps builder"

text \<open>
  \<^verbatim>\<open>for food in distribution.get(slot, []): builder.add_...(food)\<close>: the first
  \<^verbatim>\<open>ValueError\<close> ends the loop.
\<close>

fun add_foods ::
  "(MealPlanBuilder \<Rightarrow> FoodItem \<Rightarrow> error + MealPlanBuilder) \<Rightarrow> FoodItem list \<Rightarrow> MealPlanBuilder
   \<Rightarrow> error + MealPlanBuilder" where
  "add_foods add [] builder = Inr builder"
| "add_foods add (food # rest) builder =
     (case add builder food of
        Inl e \<Rightarrow> Inl e
      | Inr builder' \<Rightarrow> add_foods add rest builder')"

definition distribution_get :: "distribution \<Rightarrow> string \<Rightarrow> FoodItem list" where
  "distribution_get distribution slot =
     (case distribution slot of Some items \<Rightarrow> items | None \<Rightarrow> [])"

definition populate_builder :: "distribution \<Rightarrow> MealPlanBuilder \<Rightarrow> error + MealPlanBuilder" where
  "populate_builder distribution builder =
     (case add_foods add_breakfast (distribution_get distribution ''breakfast'') builder of
        Inl e \<Rightarrow> Inl e
      | Inr b1 \<Rightarrow>
     (case add_foods add_lunch (distribution_get distribution ''lunch'') b1 of
        Inl e \<Rightarrow> Inl e
      | Inr b2 \<Rightarrow>
     (case add_foods add_dinner (distribution_get distribution ''dinner'') b2 of
        Inl e \<Rightarrow> Inl e
      | Inr b3 \<Rightarrow> add_foods add_snack (distribution_get distribution ''snack'') b3)))"

text \<open>The body of the \<^verbatim>\<open>try\<close> in \<^verbatim>\<open>find_optimal_plan\<close>.\<close>

definition find_optimal_plan_body ::
  "FoodItem list \<Rightarrow> targets \<Rightarrow> limits \<Rightarrow> (string \<rightharpoonup> rat) \<Rightarrow> slot_caps \<Rightarrow> error + MealPlan" where
  "find_optimal_plan_body foods targets limits weights slot_caps =
     (case pooled_selection foods targets limits weights slot_caps of
        Inl e \<Rightarrow> Inl e
      | Inr all_selected \<Rightarrow>
     (case distribute_to_slots all_selected slot_caps of
        Inl e \<Rightarrow> Inl e
      | Inr distribution \<Rightarrow>
     (case populate_builder distribution (configure_builder slot_caps new_builder) of
        Inl e \<Rightarrow> Inl e
      | Inr builder \<Rightarrow> build builder targets limits)))"

text \<open>
  The handler \<^verbatim>\<open>except Exception as e\<close> first prints a message that holds \<^verbatim>\<open>e\<close> and
  then returns \<^verbatim>\<open>None\<close>. \<^verbatim>\<open>print\<close> writes to the standard output and raises when that
  fails, for instance \<^verbatim>\<open>UnicodeEncodeError\<close> when the encoding of the output has no code
  for a character of the message. The output is the parameter \<open>console\<close>: it tells, for
  the thing printed, whether \<^verbatim>\<open>print\<close> returns. An exception raised inside the handler
  leaves the function; \<open>PrintRaised\<close> is that exception, with what was being printed.
\<close>

datatype 'm escaped = PrintRaised 'm

definition find_optimal_plan ::
  "(error \<Rightarrow> bool) \<Rightarrow> FoodItem list \<Rightarrow> targets \<Rightarrow> limits \<Rightarrow> (string \<rightharpoonup> rat) \<Rightarrow> slot_caps
   \<Rightarrow> error escaped + MealPlan option" where
  "find_optimal_plan console foods targets limits weights slot_caps =
     (case find_optimal_plan_body foods targets limits weights slot_caps of
        Inl e \<Rightarrow> if console e then Inr None else Inl (PrintRaised e)
      | Inr plan \<Rightarrow> Inr (Some plan))"

subsection \<open>The sort as a parameter\<close>







section \<open>Catalog ingestion\<close>





















section \<open>Specification-side notions\<close>

definition known_slots :: "string list" where
  "known_slots = [''breakfast'', ''lunch'', ''dinner'', ''snack'']"



definition nutrient_sum :: "FoodItem list \<Rightarrow> string \<Rightarrow> rat" where
  "nutrient_sum items nutrient = sum_list (map (\<lambda>i. get_nutrient_value i nutrient) items)"


definition above_maximum :: "rat option \<Rightarrow> rat \<Rightarrow> bool" where
  "above_maximum max_val val = (case max_val of Some hi \<Rightarrow> val > hi | None \<Rightarrow> False)"



text \<open>
  The scorer as the specification words it: the nutrients that are scored, the ratio, the
  weight, the contribution of one nutrient, and the sum divided by four.
\<close>

definition target_active :: "slot_targets \<Rightarrow> string \<Rightarrow> bool" where
  "target_active targets nutrient =
     (case map_of targets nutrient of Some goal \<Rightarrow> goal > 0 | None \<Rightarrow> False)"

definition spec_ratio :: "slot_targets \<Rightarrow> FoodItem \<Rightarrow> string \<Rightarrow> rat" where
  "spec_ratio targets food nutrient =
     get_nutrient_value food nutrient /
       max (case map_of targets nutrient of Some goal \<Rightarrow> goal | None \<Rightarrow> 0) 1"

definition spec_weight :: "(string \<rightharpoonup> rat) \<Rightarrow> string \<Rightarrow> rat" where
  "spec_weight weights nutrient = (case weights nutrient of Some w \<Rightarrow> w | None \<Rightarrow> 1)"

definition spec_contribution ::
  "slot_targets \<Rightarrow> (string \<rightharpoonup> rat) \<Rightarrow> FoodItem \<Rightarrow> string \<Rightarrow> rat" where
  "spec_contribution targets weights food nutrient =
     (if spec_ratio targets food nutrient > 3 / 2
      then - spec_weight weights nutrient * (spec_ratio targets food nutrient - 1)
      else spec_weight weights nutrient * (1 - \<bar>1 - spec_ratio targets food nutrient\<bar>))"

definition spec_score :: "slot_targets \<Rightarrow> (string \<rightharpoonup> rat) \<Rightarrow> FoodItem \<Rightarrow> rat" where
  "spec_score targets weights food =
     sum_list (map (spec_contribution targets weights food)
                 (filter (target_active targets) [''calories'', ''protein'', ''fat'', ''carbs'']))
       / 4"

text \<open>
  For the selector: a bound map in which no minimum lies above its maximum, the items
  whose nutrient sums exceed no configured maximum, and the running totals after a list
  of accepted items.
\<close>

definition bound_consistent :: "string \<times> (rat option \<times> rat option) \<Rightarrow> bool" where
  "bound_consistent bnd =
     (case fst (snd bnd) of
        Some lo \<Rightarrow> (case snd (snd bnd) of Some hi \<Rightarrow> lo \<le> hi | None \<Rightarrow> True)
      | None \<Rightarrow> True)"

definition bounds_consistent :: "limits \<Rightarrow> bool" where
  "bounds_consistent limits = list_all bound_consistent limits"

definition maximum_kept :: "FoodItem list \<Rightarrow> string \<times> (rat option \<times> rat option) \<Rightarrow> bool" where
  "maximum_kept items bnd = (\<not> above_maximum (snd (snd bnd)) (nutrient_sum items (fst bnd)))"

definition within_maxima :: "limits \<Rightarrow> FoodItem list \<Rightarrow> bool" where
  "within_maxima limits items = list_all (maximum_kept items) limits"

definition running_totals :: "FoodItem list \<Rightarrow> (string \<rightharpoonup> rat)" where
  "running_totals items =
     (\<lambda>nutrient. if nutrient \<in> set nutrients then Some (nutrient_sum items nutrient) else None)"

text \<open>
  For the allocator: a slot has free capacity in a distribution when its list is shorter
  than its configured maximum; a slot is within its capacity when it is empty or holds at
  most the maximum.
\<close>

definition has_room :: "slot_caps \<Rightarrow> distribution \<Rightarrow> string \<Rightarrow> bool" where
  "has_room slot_caps distribution slot =
     (case distribution slot of
        None \<Rightarrow> False
      | Some items \<Rightarrow>
          (case map_of slot_caps slot of
             None \<Rightarrow> False
           | Some cap \<Rightarrow> int (length items) < snd cap))"

definition slot_within_cap :: "distribution \<Rightarrow> string \<Rightarrow> int \<Rightarrow> bool" where
  "slot_within_cap distribution slot max_count =
     (case distribution slot of
        None \<Rightarrow> True
      | Some items \<Rightarrow> items = [] \<or> int (length items) \<le> max_count)"







section \<open>Concrete inputs\<close>

definition brunch_item :: FoodItem where
  "brunch_item = \<lparr>name = ''Toast'', calories = 150, protein = 5, fat = 2, carbs = 28,
                   meal_times = {''brunch''}, tags = {}\<rparr>"

definition ham :: FoodItem where
  "ham = \<lparr>name = ''Ham'', calories = 300, protein = 20, fat = 10, carbs = 30,
           meal_times = {''breakfast'', ''lunch''}, tags = {''meat''}\<rparr>"

definition soup :: FoodItem where
  "soup = \<lparr>name = ''Soup'', calories = 200, protein = 15, fat = 5, carbs = 25,
            meal_times = {''lunch''}, tags = {}\<rparr>"

definition bacon :: FoodItem where
  "bacon = \<lparr>name = ''Bacon'', calories = 250, protein = 12, fat = 20, carbs = 1,
             meal_times = {''breakfast''}, tags = {''meat''}\<rparr>"

definition default_caps :: slot_caps where
  "default_caps = [(''breakfast'', (1, 2)), (''lunch'', (1, 3)), (''dinner'', (1, 3)),
                   (''snack'', (0, 2))]"

definition tight_caps :: slot_caps where
  "tight_caps = [(''breakfast'', (0, 1)), (''lunch'', (0, 2)), (''dinner'', (0, 1)),
                 (''snack'', (0, 1))]"







text \<open>
  Two outputs: one that takes every message, and one whose encoding has no code for the
  sign that opens the message of \<^verbatim>\<open>find_optimal_plan\<close>'s handler, so that no such
  message can be printed.
\<close>

definition every_message :: "'m \<Rightarrow> bool" where
  "every_message m = True"

definition no_message :: "'m \<Rightarrow> bool" where
  "no_message m = False"





section \<open>Properties of the builder\<close>

text \<open>
  C10. \<^verbatim>\<open>add_to_slot\<close> raises exactly when the slot is not in the item's
  \<^verbatim>\<open>meal_times\<close>; with a slot that is in \<^verbatim>\<open>meal_times\<close> but is none of breakfast,
  lunch, dinner, snack it raises nothing and returns the builder unchanged, so all four
  slot lists stay as they were.
\<close>

theorem add_to_slot_raises_iff:
  "((\<exists>e. add_to_slot b slot item = Inl e) \<longleftrightarrow> slot \<notin> meal_times item) \<and>
   (slot \<in> meal_times item \<and> slot \<notin> set known_slots \<longrightarrow> add_to_slot b slot item = Inr b)"
  by (simp add: add_to_slot_def known_slots_def)

theorem add_to_slot_raises_iff_witness:
  "''brunch'' \<in> meal_times brunch_item \<and> ''brunch'' \<notin> set known_slots \<and>
   add_to_slot new_builder ''brunch'' brunch_item = Inr new_builder \<and>
   add_to_slot new_builder ''lunch'' brunch_item = Inl (NotSuitable ''Toast'' ''lunch'')"
proof -
  have m: "''brunch'' \<in> meal_times brunch_item \<and> ''brunch'' \<notin> set known_slots"
    by (simp add: brunch_item_def known_slots_def)
  have "add_to_slot new_builder ''brunch'' brunch_item = Inr new_builder"
    using add_to_slot_raises_iff [of new_builder "''brunch''" brunch_item] m by blast
  moreover have "add_to_slot new_builder ''lunch'' brunch_item = Inl (NotSuitable ''Toast'' ''lunch'')"
    by (simp add: add_to_slot_def brunch_item_def)
  ultimately show ?thesis using m by blast
qed

subsection \<open>Validation in build\<close>









section \<open>Properties of the optimizer\<close>

subsection \<open>Scorer and selector\<close>

lemma fold_score_step:
  "fold (score_step targets weights food) ns acc =
   acc + sum_list (map (spec_contribution targets weights food) (filter (target_active targets) ns))"
proof (induction ns arbitrary: acc)
  case Nil
  show ?case by simp
next
  case (Cons n ns)
  have step: "score_step targets weights food n acc =
        (if target_active targets n then acc + spec_contribution targets weights food n else acc)"
    by (simp add: score_step_def target_active_def spec_contribution_def spec_ratio_def
        spec_weight_def Let_def split: option.splits)
  show ?case
    by (simp add: Cons.IH step)
qed

text \<open>
  C4. The score of a food is the specification's formula: over the four tracked nutrients
  that the target holds with a strictly positive goal, with
  \<open>ratio = nutrient_value / max (target_value, 1)\<close>, the contribution is
  \<open>- weight * (ratio - 1)\<close> if \<open>ratio > 1.5\<close> and \<open>weight * (1 - |1 - ratio|)\<close>
  otherwise, the weight being 1 when unspecified; the score is the sum of the contributions
  divided by 4, however many nutrients were scored; with no active target it is 0.
\<close>

theorem scorer_formula:
  "food_score targets weights food = spec_score targets weights food \<and>
   (filter (target_active targets) nutrients = [] \<longrightarrow> food_score targets weights food = 0)"
proof -
  have "food_score targets weights food = spec_score targets weights food"
    unfolding food_score_def spec_score_def fold_score_step
    by (simp add: nutrients_def)
  moreover have "food_score targets weights food = 0"
    if "filter (target_active targets) nutrients = []"
    unfolding food_score_def fold_score_step using that by simp
  ultimately show ?thesis by blast
qed

theorem scorer_formula_witness:
  "filter (target_active [(''fiber'', 30)]) nutrients = [] \<and>
   food_score [(''fiber'', 30)] Map.empty soup = 0 \<and>
   spec_score [(''calories'', 250), (''protein'', 10)] [''protein'' \<mapsto> 2] soup = 9 / 20"
proof -
  have none: "filter (target_active [(''fiber'', 30)]) nutrients = []"
    by (simp add: target_active_def nutrients_def)
  have zero: "food_score [(''fiber'', 30)] Map.empty soup = 0"
    using scorer_formula [of "[(''fiber'', 30)]" Map.empty soup] none by blast
  have "food_score [(''calories'', 250), (''protein'', 10)] [''protein'' \<mapsto> 2] soup = 9 / 20"
    by (simp add: food_score_def score_step_def nutrients_def get_nutrient_value_def soup_def
        Let_def)
  then have "spec_score [(''calories'', 250), (''protein'', 10)] [''protein'' \<mapsto> 2] soup = 9 / 20"
    using scorer_formula [of "[(''calories'', 250), (''protein'', 10)]" "[''protein'' \<mapsto> 2]" soup]
    by simp
  with none zero show ?thesis by blast
qed

lemma init_totals_running: "init_totals = running_totals []"
  by (rule ext) (simp add: init_totals_def running_totals_def nutrients_def nutrient_sum_def)

lemma add_food_totals_running:
  "add_food_totals (running_totals items) food = running_totals (items @ [food])"
  by (rule ext) (simp add: add_food_totals_def running_totals_def nutrients_def nutrient_sum_def)

lemma within_limits_accepts:
  "within_limits limits temp = Inr True \<Longrightarrow> bounds_consistent limits \<Longrightarrow>
   bnd \<in> set limits \<Longrightarrow>
   \<exists>val. temp (fst bnd) = Some val \<and> \<not> above_maximum (snd (snd bnd)) val"
proof (induction limits)
  case Nil
  then show ?case by simp
next
  case (Cons b rest)
  obtain nutrient min_val max_val where b: "b = (nutrient, (min_val, max_val))"
    by (metis surj_pair)
  from Cons.prems(1) obtain val where val: "temp nutrient = Some val"
    by (auto simp: b split: option.splits)
  from Cons.prems(2) have cons: "bound_consistent b" "bounds_consistent rest"
    by (simp_all add: bounds_consistent_def)
  from Cons.prems(1) val have rest: "within_limits rest temp = Inr True"
    by (auto simp: b split: if_splits)
  have here: "\<not> above_maximum max_val val"
    using Cons.prems(1) val cons(1)
    by (auto simp: b above_maximum_def bound_consistent_def split: if_splits option.splits)
  show ?case
  proof (cases "bnd = b")
    case True
    then show ?thesis using val here by (simp add: b)
  next
    case False
    with Cons.prems(3) have "bnd \<in> set rest" by simp
    then show ?thesis using Cons.IH rest cons(2) by blast
  qed
qed

lemma accepted_within_maxima:
  assumes "within_limits limits (running_totals items) = Inr True" "bounds_consistent limits"
  shows "within_maxima limits items"
proof -
  have "maximum_kept items bnd" if "bnd \<in> set limits" for bnd
  proof -
    from within_limits_accepts [OF assms that]
    obtain val where v: "running_totals items (fst bnd) = Some val"
      "\<not> above_maximum (snd (snd bnd)) val" by blast
    from v(1) have "val = nutrient_sum items (fst bnd)"
      by (simp add: running_totals_def split: if_splits)
    with v(2) show ?thesis by (simp add: maximum_kept_def)
  qed
  then show ?thesis by (simp add: within_maxima_def list_all_iff)
qed

lemma select_loop_invariant:
  "select_loop limits max_items cands selected current = Inr result \<Longrightarrow>
   bounds_consistent limits \<Longrightarrow>
   current = running_totals selected \<Longrightarrow>
   int (length selected) \<le> max_items \<Longrightarrow>
   (\<forall>k < length selected. within_maxima limits (take (Suc k) selected)) \<Longrightarrow>
   int (length result) \<le> max_items \<and>
   (\<forall>k < length result. within_maxima limits (take (Suc k) result))"
proof (induction cands arbitrary: selected current)
  case Nil
  then show ?case by simp
next
  case (Cons c rest)
  obtain score food where c: "c = (score, food)" by (metis surj_pair)
  show ?case
  proof (cases "int (length selected) \<ge> max_items")
    case True
    with Cons.prems show ?thesis by (simp add: c)
  next
    case room: False
    let ?temp = "add_food_totals current food"
    have temp: "?temp = running_totals (selected @ [food])"
      using Cons.prems(3) by (simp add: add_food_totals_running)
    from Cons.prems(1) room obtain ok where ok: "within_limits limits ?temp = Inr ok"
      by (auto simp: c Let_def split: sum.splits)
    show ?thesis
    proof (cases ok)
      case True
      with Cons.prems(1) room ok
      have run: "select_loop limits max_items rest (selected @ [food]) ?temp = Inr result"
        by (simp add: c Let_def)
      have wm: "within_maxima limits (selected @ [food])"
        using accepted_within_maxima ok True temp Cons.prems(2) by simp
      have len: "int (length (selected @ [food])) \<le> max_items"
        using room by simp
      have pre: "\<forall>k < length (selected @ [food]).
                   within_maxima limits (take (Suc k) (selected @ [food]))"
      proof (intro allI impI)
        fix k assume "k < length (selected @ [food])"
        then consider "k < length selected" | "k = length selected" by fastforce
        then show "within_maxima limits (take (Suc k) (selected @ [food]))"
        proof cases
          case 1
          then show ?thesis using Cons.prems(5) by simp
        next
          case 2
          then show ?thesis using wm by simp
        qed
      qed
      show ?thesis
        using Cons.IH [OF run Cons.prems(2) temp len pre] .
    next
      case False
      with Cons.prems(1) room ok
      have run: "select_loop limits max_items rest selected current = Inr result"
        by (simp add: c Let_def)
      show ?thesis
        using Cons.IH [OF run Cons.prems(2) Cons.prems(3) Cons.prems(4) Cons.prems(5)] .
    qed
  qed
qed

text \<open>
  C1, as amended. When the item cap is not negative and no bound of the bound map has its
  minimum above its maximum, the selector returns at most \<open>max_items\<close> records, and for
  every accepted record the totals over the records accepted so far, that record included
  (the running total at the time of its acceptance plus its own values), exceed no
  configured maximum.
\<close>

theorem selector_cap_and_maxima:
  "knapsack_optimize foods targets limits weights max_items = Inr selected \<Longrightarrow>
   0 \<le> max_items \<Longrightarrow> bounds_consistent limits \<Longrightarrow>
   int (length selected) \<le> max_items \<and>
   (\<forall>k < length selected. within_maxima limits (take (Suc k) selected))"
proof (cases "targets = [] \<or> foods = []")
  case True
  assume "knapsack_optimize foods targets limits weights max_items = Inr selected"
    and "0 \<le> max_items"
  with True show ?thesis by (auto simp: knapsack_optimize_def)
next
  case False
  assume k: "knapsack_optimize foods targets limits weights max_items = Inr selected"
    and m: "0 \<le> max_items" and b: "bounds_consistent limits"
  from k False have run:
    "select_loop limits max_items (rank_foods targets weights foods) [] init_totals = Inr selected"
    by (simp add: knapsack_optimize_def)
  show ?thesis
    using select_loop_invariant [OF run b init_totals_running] m by simp
qed

theorem selector_cap_and_maxima_witness:
  "knapsack_optimize [ham, soup] [(''calories'', 250)] [(''calories'', (Some 100, Some 400))]
     Map.empty 2 = Inr [ham] \<and>
   bounds_consistent [(''calories'', (Some 100, Some 400))] \<and>
   int (length [ham]) \<le> 2 \<and>
   within_maxima [(''calories'', (Some 100, Some 400))] (take (Suc 0) [ham])"
proof -
  have run: "knapsack_optimize [ham, soup] [(''calories'', 250)]
               [(''calories'', (Some 100, Some 400))] Map.empty 2 = Inr [ham]"
    by (simp add: knapsack_optimize_def rank_foods_def food_score_def score_step_def
        nutrients_def get_nutrient_value_def init_totals_def add_food_totals_def ham_def
        soup_def Let_def)
  have cap: "(0::int) \<le> 2" by simp
  have cons: "bounds_consistent [(''calories'', (Some 100, Some 400))]"
    by (simp add: bounds_consistent_def bound_consistent_def)
  from selector_cap_and_maxima [OF run cap cons] run cons show ?thesis by simp
qed

text \<open>
  C1 as stated fails. With the bound \<open>(1000, 100)\<close> on calories a record of 200 kcal is
  below the minimum, the comparison with the maximum is skipped, and the record is
  accepted although it puts the total above the maximum 100. With the item cap \<open>-1\<close> the
  selector returns the empty list, whose length is not at most \<open>-1\<close>.
\<close>

theorem selector_maximum_counterexample:
  "knapsack_optimize [soup] [(''calories'', 250)] [(''calories'', (Some 1000, Some 100))]
     Map.empty 10 = Inr [soup] \<and>
   \<not> within_maxima [(''calories'', (Some 1000, Some 100))] (take (Suc 0) [soup]) \<and>
   knapsack_optimize [soup] [(''calories'', 250)] [] Map.empty (- 1) = Inr [] \<and>
   \<not> int (length ([] :: FoodItem list)) \<le> - 1"
  by (simp add: knapsack_optimize_def rank_foods_def food_score_def score_step_def
      nutrients_def get_nutrient_value_def init_totals_def add_food_totals_def soup_def Let_def
      within_maxima_def maximum_kept_def above_maximum_def nutrient_sum_def)

subsection \<open>Slot allocator\<close>

lemma assign_natural_cap:
  "assign_natural slot_caps food slots d = Inr (d', assigned) \<Longrightarrow>
   map_of slot_caps slot = Some (min_count, max_count) \<Longrightarrow>
   slot_within_cap d slot max_count \<Longrightarrow> slot_within_cap d' slot max_count"
  by (induction slots) (auto simp: slot_within_cap_def split: if_splits option.splits)

lemma assign_anywhere_cap:
  "assign_anywhere slot_caps food slots d = Inr d' \<Longrightarrow>
   map_of slot_caps slot = Some (min_count, max_count) \<Longrightarrow>
   slot_within_cap d slot max_count \<Longrightarrow> slot_within_cap d' slot max_count"
  by (induction slots) (auto simp: slot_within_cap_def split: if_splits option.splits)

lemma place_food_cap:
  assumes "place_food slot_caps food d = Inr d'"
    "map_of slot_caps slot = Some (min_count, max_count)"
    "slot_within_cap d slot max_count"
  shows "slot_within_cap d' slot max_count"
proof -
  from assms(1) obtain d1 assigned where
    nat: "assign_natural slot_caps food [''breakfast'', ''lunch'', ''dinner'', ''snack''] d
            = Inr (d1, assigned)"
    unfolding place_food_def by (auto split: sum.splits)
  have d1: "slot_within_cap d1 slot max_count"
    using assign_natural_cap [OF nat assms(2) assms(3)] .
  show ?thesis
  proof (cases assigned)
    case True
    with assms(1) nat have "d' = d1" unfolding place_food_def by simp
    with d1 show ?thesis by simp
  next
    case False
    with assms(1) nat have
      "assign_anywhere slot_caps food [''breakfast'', ''lunch'', ''dinner'', ''snack''] d1 = Inr d'"
      unfolding place_food_def by simp
    from assign_anywhere_cap [OF this assms(2) d1] show ?thesis .
  qed
qed

lemma distribute_loop_cap:
  "distribute_loop slot_caps foods d = Inr d' \<Longrightarrow>
   map_of slot_caps slot = Some (min_count, max_count) \<Longrightarrow>
   slot_within_cap d slot max_count \<Longrightarrow> slot_within_cap d' slot max_count"
proof (induction foods arbitrary: d)
  case Nil
  then show ?case by simp
next
  case (Cons food rest)
  from Cons.prems(1) obtain d1 where
    step: "place_food slot_caps food d = Inr d1" and
    run: "distribute_loop slot_caps rest d1 = Inr d'"
    by (auto split: sum.splits)
  from place_food_cap [OF step Cons.prems(2) Cons.prems(3)]
  show ?case using Cons.IH [OF run Cons.prems(2)] by simp
qed

lemma init_distribution_lookup:
  "init_distribution slot_caps slot = (if slot \<in> fst ` set slot_caps then Some [] else None)"
  unfolding init_distribution_def
  by (induction slot_caps) auto

text \<open>
  C7. Whatever the foods and the slot capacities, the allocator returns no slot with more
  items than the slot's configured maximum count: a slot that received any item holds at
  most the maximum, and so does every slot whose maximum is not negative, as the
  capacities of the data model are (with a negative maximum the slot stays empty). Both
  inner loops append only below the maximum, so the bound holds on the eligibility path and
  on the fallback path alike.
\<close>

theorem allocator_respects_max:
  "distribute_to_slots foods slot_caps = Inr distribution \<Longrightarrow>
   map_of slot_caps slot = Some (min_count, max_count) \<Longrightarrow>
   distribution slot = Some items \<Longrightarrow> items \<noteq> [] \<or> 0 \<le> max_count \<Longrightarrow>
   int (length items) \<le> max_count"
proof -
  assume run: "distribute_to_slots foods slot_caps = Inr distribution"
    and cap: "map_of slot_caps slot = Some (min_count, max_count)"
    and items: "distribution slot = Some items"
    and filled: "items \<noteq> [] \<or> 0 \<le> max_count"
  have "slot_within_cap (init_distribution slot_caps) slot max_count"
    by (simp add: slot_within_cap_def init_distribution_lookup)
  with run cap have "slot_within_cap distribution slot max_count"
    unfolding distribute_to_slots_def by (rule distribute_loop_cap)
  with items filled show ?thesis by (auto simp: slot_within_cap_def)
qed

theorem allocator_respects_max_witness:
  "distribute_to_slots [ham, ham, soup] tight_caps =
     Inr ((init_distribution tight_caps)(''lunch'' \<mapsto> [ham, ham], ''breakfast'' \<mapsto> [soup])) \<and>
   map_of tight_caps ''lunch'' = Some (0, 2) \<and>
   [ham, ham] \<noteq> [] \<and>
   int (length [ham, ham]) \<le> 2"
proof -
  let ?d = "(init_distribution tight_caps)(''lunch'' \<mapsto> [ham, ham], ''breakfast'' \<mapsto> [soup])"
  have run: "distribute_to_slots [ham, ham, soup] tight_caps = Inr ?d"
    by (simp add: distribute_to_slots_def place_food_def init_distribution_def tight_caps_def
        ham_def soup_def)
  have cap: "map_of tight_caps ''lunch'' = Some (0, 2)"
    by (simp add: tight_caps_def)
  have items: "?d ''lunch'' = Some [ham, ham]" by simp
  have filled: "[ham, ham] \<noteq> [] \<or> (0::int) \<le> 2" by simp
  from allocator_respects_max [OF run cap items filled] run cap show ?thesis by blast
qed

lemma distribute_loop_append:
  "distribute_loop slot_caps (xs @ ys) d =
   (case distribute_loop slot_caps xs d of
      Inl e \<Rightarrow> Inl e
    | Inr d' \<Rightarrow> distribute_loop slot_caps ys d')"
  by (induction xs arbitrary: d) (auto split: sum.splits)

lemma assign_natural_meat:
  "assign_natural slot_caps food slots d = Inr (d', assigned) \<Longrightarrow> ''meat'' \<in> tags food \<Longrightarrow>
   d' ''breakfast'' = d ''breakfast''"
  by (induction slots) (auto split: if_splits option.splits)

lemma assign_natural_unchanged:
  "assign_natural slot_caps food slots d = Inr (d', False) \<Longrightarrow> d' = d"
  by (induction slots) (auto split: if_splits option.splits)

lemma assign_natural_full:
  "assign_natural slot_caps food slots d = Inr (d', False) \<Longrightarrow> slot \<in> set slots \<Longrightarrow>
   slot \<in> meal_times food \<Longrightarrow> slot \<noteq> ''breakfast'' \<Longrightarrow> \<not> has_room slot_caps d slot"
proof (induction slots)
  case Nil
  then show ?case by simp
next
  case (Cons s rest)
  show ?case
  proof (cases "slot = s")
    case True
    with Cons.prems(1,3,4) show ?thesis
      by (auto simp: has_room_def split: if_splits option.splits)
  next
    case False
    with Cons.prems(2) have mem: "slot \<in> set rest" by simp
    from Cons.prems(1) have "assign_natural slot_caps food rest d = Inr (d', False)"
      by (auto split: if_splits option.splits)
    from Cons.IH [OF this mem Cons.prems(3) Cons.prems(4)] show ?thesis .
  qed
qed

lemma place_food_meat:
  assumes "place_food slot_caps food d = Inr d'" "''meat'' \<in> tags food"
    "d' ''breakfast'' \<noteq> d ''breakfast''"
  shows "\<forall>slot \<in> {''lunch'', ''dinner'', ''snack''}.
           slot \<in> meal_times food \<longrightarrow> \<not> has_room slot_caps d slot"
proof -
  from assms(1) obtain d1 assigned where
    nat: "assign_natural slot_caps food [''breakfast'', ''lunch'', ''dinner'', ''snack''] d
            = Inr (d1, assigned)"
    unfolding place_food_def by (auto split: sum.splits)
  have "\<not> assigned"
  proof
    assume assigned
    with assms(1) nat have "d' = d1" unfolding place_food_def by simp
    with assign_natural_meat [OF nat assms(2)] assms(3) show False by simp
  qed
  with nat have
    "assign_natural slot_caps food [''breakfast'', ''lunch'', ''dinner'', ''snack''] d
       = Inr (d1, False)" by simp
  from assign_natural_full [OF this] show ?thesis by simp
qed

text \<open>
  C2, as amended. When the allocator processes a food tagged meat, in the distribution
  \<open>d\<close> reached after the foods before it, the food goes to breakfast only if no slot
  among lunch, dinner and snack for which the food is eligible had free capacity in \<open>d\<close>.
\<close>

theorem meat_breakfast_only_by_fallback:
  "distribute_to_slots (before @ food # after) slot_caps = Inr final \<Longrightarrow>
   ''meat'' \<in> tags food \<Longrightarrow>
   \<exists>d d'. distribute_to_slots before slot_caps = Inr d \<and>
           place_food slot_caps food d = Inr d' \<and>
           (d' ''breakfast'' \<noteq> d ''breakfast'' \<longrightarrow>
              (\<forall>slot \<in> {''lunch'', ''dinner'', ''snack''}.
                 slot \<in> meal_times food \<longrightarrow> \<not> has_room slot_caps d slot))"
proof -
  assume run: "distribute_to_slots (before @ food # after) slot_caps = Inr final"
    and meat: "''meat'' \<in> tags food"
  from run obtain d where
    d: "distribute_loop slot_caps before (init_distribution slot_caps) = Inr d" and
    rest: "distribute_loop slot_caps (food # after) d = Inr final"
    unfolding distribute_to_slots_def distribute_loop_append by (auto split: sum.splits)
  from rest obtain d' where step: "place_food slot_caps food d = Inr d'"
    by (auto split: sum.splits)
  show ?thesis
    using d step place_food_meat [OF step meat]
    unfolding distribute_to_slots_def by blast
qed

theorem meat_breakfast_only_by_fallback_witness:
  "''meat'' \<in> tags ham \<and>
   distribute_to_slots ([soup, soup] @ ham # []) tight_caps =
     Inr ((init_distribution tight_caps)(''lunch'' \<mapsto> [soup, soup], ''breakfast'' \<mapsto> [ham])) \<and>
   distribute_to_slots [soup, soup] tight_caps =
     Inr ((init_distribution tight_caps)(''lunch'' \<mapsto> [soup, soup])) \<and>
   ''lunch'' \<in> meal_times ham \<and>
   \<not> has_room tight_caps ((init_distribution tight_caps)(''lunch'' \<mapsto> [soup, soup])) ''lunch''"
proof -
  let ?d = "(init_distribution tight_caps)(''lunch'' \<mapsto> [soup, soup])"
  let ?f = "(init_distribution tight_caps)(''lunch'' \<mapsto> [soup, soup], ''breakfast'' \<mapsto> [ham])"
  have meat: "''meat'' \<in> tags ham" by (simp add: ham_def)
  have elig: "''lunch'' \<in> meal_times ham" by (simp add: ham_def)
  have run: "distribute_to_slots ([soup, soup] @ ham # []) tight_caps = Inr ?f"
    by (simp add: distribute_to_slots_def place_food_def init_distribution_def tight_caps_def
        ham_def soup_def)
  have before: "distribute_to_slots [soup, soup] tight_caps = Inr ?d"
    by (simp add: distribute_to_slots_def place_food_def init_distribution_def tight_caps_def
        ham_def soup_def)
  have step: "place_food tight_caps ham ?d = Inr ?f"
    by (simp add: distribute_to_slots_def place_food_def init_distribution_def tight_caps_def
        ham_def soup_def)
  have moved: "?f ''breakfast'' \<noteq> ?d ''breakfast''"
    by (simp add: init_distribution_def tight_caps_def)
  from meat_breakfast_only_by_fallback [OF run meat] before step moved
  have "\<forall>slot \<in> {''lunch'', ''dinner'', ''snack''}.
          slot \<in> meal_times ham \<longrightarrow> \<not> has_room tight_caps ?d slot"
    by auto
  with elig have "\<not> has_room tight_caps ?d ''lunch''" by blast
  with meat run before elig show ?thesis by blast
qed

text \<open>
  C2 as stated fails. A food tagged meat that is eligible for breakfast only goes to
  breakfast through the second loop, which starts at breakfast, while lunch, dinner and
  snack are all empty and have free capacity.
\<close>

theorem meat_breakfast_counterexample:
  "''meat'' \<in> tags bacon \<and>
   distribute_to_slots [] default_caps = Inr (init_distribution default_caps) \<and>
   distribute_to_slots ([] @ bacon # []) default_caps =
     Inr ((init_distribution default_caps)(''breakfast'' \<mapsto> [bacon])) \<and>
   has_room default_caps (init_distribution default_caps) ''lunch'' \<and>
   has_room default_caps (init_distribution default_caps) ''dinner'' \<and>
   has_room default_caps (init_distribution default_caps) ''snack''"
  by (simp add: distribute_to_slots_def place_food_def init_distribution_def default_caps_def
      bacon_def has_room_def)

section \<open>Properties of the orchestration\<close>













text \<open>
  C6. \<^verbatim>\<open>find_optimal_plan\<close> does hand an exception to its caller when its handler
  cannot print. With a catalog of one food for lunch and the default capacities,
  \<^verbatim>\<open>build\<close> raises for the empty breakfast; on an output that takes the message the
  call returns \<open>None\<close>, and on an output that does not, the exception of \<^verbatim>\<open>print\<close>
  leaves the function.
\<close>

theorem handler_print_escapes:
  "find_optimal_plan every_message [soup] [] [] Map.empty default_caps = Inr None \<and>
   find_optimal_plan no_message [soup] [] [] Map.empty default_caps =
     Inl (PrintRaised (BuildError (TooFewItems ''breakfast'' 0 1)))"
  by (simp add: find_optimal_plan_def find_optimal_plan_body_def pooled_selection_def
      slot_foods_of_def filter_items_def by_meal_time_def daily_targets_of_def slice_to_def
      distribute_to_slots_def place_food_def init_distribution_def configure_builder_def
      set_slot_limits_def new_builder_def populate_builder_def distribution_get_def
      add_breakfast_def add_lunch_def add_dinner_def add_snack_def add_to_slot_def
      build_def build_body_def get_slot_items_def plan_of_def default_caps_def soup_def
      every_message_def no_message_def)

subsection \<open>Determinism\<close>















section \<open>Properties of the ingestion\<close>








end
